theory Spec2Isabelle
  imports Complex_Main "HOL-Library.Word"
begin

section \<open>Numeric conventions\<close>

text \<open>
  The sources compute in \<^verbatim>\<open>float\<close>. In two places a rounded value decides a discrete
  outcome: the quotient \<^verbatim>\<open>v.x() / unit_length_\<close>, whose floor is the index of the tile,
  and the loop counter \<^verbatim>\<open>distance += 0.1f\<close>, whose comparison with the length of the
  segment decides how many samples are taken. Both are computed here in IEEE single
  precision (next section). Every other quantity (positions, lengths, gains, cosines,
  weights, colours) is a \<^typ>\<open>real\<close> computed exactly; there the rounding of the source
  changes a value by a relative error of the order of \<open>2\<^sup>-\<^sup>2\<^sup>4\<close> per operation.
  Machine integers keep their width: \<^verbatim>\<open>int\<close> is \<^typ>\<open>32 word\<close> read with
  \<^const>\<open>sint\<close>, \<^verbatim>\<open>long\<close> is \<^typ>\<open>64 word\<close>, \<^verbatim>\<open>uchar\<close> is \<^typ>\<open>8 word\<close> read with
  \<^const>\<open>unat\<close>.
\<close>

section \<open>Single precision\<close>

text \<open>
  A finite \<^verbatim>\<open>float\<close> is the real number it holds; \<open>None\<close> stands for an infinity or a NaN.
  An operation rounds its exact result to the nearest value with a 24-bit significand,
  ties to the even significand, with gradual underflow below \<open>2\<^sup>-\<^sup>1\<^sup>2\<^sup>6\<close>; a rounded result
  of magnitude \<open>2\<^sup>1\<^sup>2\<^sup>8\<close> or more is infinite.
\<close>

text \<open>Rounding to the nearest integer, ties to even.\<close>

definition rne :: "real \<Rightarrow> int" where
  "rne x = (let f = \<lfloor>x\<rfloor>; d = x - of_int f
            in if d < 1 / 2 then f else if 1 / 2 < d then f + 1
               else if even f then f else f + 1)"

text \<open>The exponent of the binade of \<open>x\<close>, not below that of the subnormal numbers.\<close>

definition float_exponent :: "real \<Rightarrow> int" where
  "float_exponent x = max (- 126) \<lfloor>log 2 \<bar>x\<bar>\<rfloor>"

definition round32 :: "real \<Rightarrow> real option" where
  "round32 x =
     (if x = 0 then Some 0
      else let ulp = 2 powi (float_exponent x - 23);
               r = of_int (rne (x / ulp)) * ulp
           in if \<bar>r\<bar> < 2 powi 128 then Some r else None)"

text \<open>Division: a zero divisor gives an infinity or a NaN.\<close>

definition fdiv32 :: "real \<Rightarrow> real \<Rightarrow> real option" where
  "fdiv32 a b = (if b = 0 then None else round32 (a / b))"


text \<open>The literal \<^verbatim>\<open>0.1f\<close>: the single-precision value nearest to \<open>1/10\<close>.\<close>

definition float_0_1 :: real where
  "float_0_1 = 13421773 / 134217728"

type_synonym Vector2f = "real \<times> real"
type_synonym Vector3f = "real \<times> real \<times> real"

section \<open>Area: the tile key (hierarchical\_cost\_map.hpp)\<close>

text \<open>
  \<^verbatim>\<open>struct Area { int x, y; static float unit_length_; ... }\<close>.
  The members \<^verbatim>\<open>x\<close> and \<^verbatim>\<open>y\<close> are the fields \<open>Area_x\<close> and \<open>Area_y\<close>. The static
  \<^verbatim>\<open>unit_length_\<close> is defined outside the header, so every operation takes it as an
  argument.
\<close>

record Area =
  Area_x :: "32 word"
  Area_y :: "32 word"

datatype error =
    Invalid_unit_length  \<comment> \<open>\<^verbatim>\<open>throw std::runtime_error("invalid Area::unit_length")\<close>\<close>

text \<open>\<^verbatim>\<open>std::floor(a / unit_length_)\<close>: the single-precision quotient, then its floor (which
  is exact); \<open>None\<close> when the quotient is not finite.\<close>

definition std_floor_div :: "real \<Rightarrow> real \<Rightarrow> int option" where
  "std_floor_div a unit_length = map_option floor (fdiv32 a unit_length)"

text \<open>\<^verbatim>\<open>static_cast<long>(f)\<close>. For a value that \<^verbatim>\<open>long\<close> cannot hold (an infinity, a NaN,
  a floor outside 64 bits) the conversion is undefined: the constructor goes on with
  whatever bits the conversion leaves, which is the argument \<open>ub\<close>.\<close>

definition static_cast_long :: "64 word \<Rightarrow> int option \<Rightarrow> 64 word" where
  "static_cast_long ub f =
     (case f of
        None \<Rightarrow> ub
      | Some i \<Rightarrow> if - (2 ^ 63) \<le> i \<and> i < 2 ^ 63 then word_of_int i else ub)"

text \<open>The constructor \<^verbatim>\<open>Area(const Eigen::Vector2f & v)\<close>. The \<^verbatim>\<open>long\<close> is stored into an
  \<^verbatim>\<open>int\<close> member, which keeps its low 32 bits.\<close>

definition Area_ctor :: "64 word \<Rightarrow> real \<Rightarrow> Vector2f \<Rightarrow> error + Area" where
  "Area_ctor ub unit_length v =
     (if unit_length < 0 then Inl Invalid_unit_length
      else Inr \<lparr>Area_x = ucast (static_cast_long ub (std_floor_div (fst v) unit_length)),
                Area_y = ucast (static_cast_long ub (std_floor_div (snd v) unit_length))\<rparr>)"


text \<open>\<^verbatim>\<open>real_scale\<close>: \<^verbatim>\<open>{x * unit_length_, y * unit_length_}\<close>, the \<^verbatim>\<open>int\<close> converted to
  \<^verbatim>\<open>float\<close> before the product.\<close>

definition real_scale :: "real \<Rightarrow> Area \<Rightarrow> Vector2f" where
  "real_scale unit_length a =
     (real_of_int (sint (Area_x a)) * unit_length, real_of_int (sint (Area_y a)) * unit_length)"

definition add2 :: "Vector2f \<Rightarrow> Vector2f \<Rightarrow> Vector2f" where
  "add2 a b = (fst a + fst b, snd a + snd b)"

text \<open>\<^verbatim>\<open>real_scale_boundary\<close>: the array of two corners, as a pair.\<close>

definition real_scale_boundary :: "real \<Rightarrow> Area \<Rightarrow> Vector2f \<times> Vector2f" where
  "real_scale_boundary unit_length a =
     (real_scale unit_length a, add2 (real_scale unit_length a) (unit_length, unit_length))"

section \<open>Small vectors (Eigen)\<close>


definition add3 :: "Vector3f \<Rightarrow> Vector3f \<Rightarrow> Vector3f" where
  "add3 a b = (fst a + fst b, fst (snd a) + fst (snd b), snd (snd a) + snd (snd b))"






definition squaredNorm2 :: "Vector2f \<Rightarrow> real" where
  "squaredNorm2 a = fst a * fst a + snd a * snd a"

definition normalize2 :: "Vector2f \<Rightarrow> Vector2f" where
  "normalize2 a =
     (let z = squaredNorm2 a in if z > 0 then (fst a / sqrt z, snd a / sqrt z) else a)"

definition dot2 :: "Vector2f \<Rightarrow> Vector2f \<Rightarrow> real" where
  "dot2 a b = fst a * fst b + snd a * snd b"

text \<open>\<^verbatim>\<open>std::clamp(v, lo, hi)\<close>: \<^verbatim>\<open>(v < lo) ? lo : (hi < v) ? hi : v\<close>.\<close>

definition std_clamp :: "real \<Rightarrow> real \<Rightarrow> real \<Rightarrow> real" where
  "std_clamp v lo hi = (if v < lo then lo else if hi < v then hi else v)"

section \<open>The tile store and its eviction\<close>

text \<open>
  The header declares \<^verbatim>\<open>map_accessed_\<close>, \<^verbatim>\<open>cost_maps_\<close> and
  \<^verbatim>\<open>generated_map_history_\<close>; the bodies of \<^verbatim>\<open>at2\<close>, \<^verbatim>\<open>build_map\<close> and
  \<^verbatim>\<open>erase_obsolete\<close> are in hierarchical\_cost\_map.cpp, which is not among the sources.
  The store is the three members; the tile type \<open>'t\<close> stands for \<^verbatim>\<open>cv::Mat\<close>.
\<close>

record 't TileStore =
  accessed :: "Area \<rightharpoonup> bool"
  tiles :: "Area \<rightharpoonup> 't"
  history :: "Area list"

definition empty_store :: "'t TileStore" where
  "empty_store = \<lparr>accessed = Map.empty, tiles = Map.empty, history = []\<rparr>"

text \<open>Modelled from the spec: \<open>contains(area)\<close>, the body of which is missing;
  \<open>accessed\<close> marks the tiles that exist.\<close>

definition contains :: "'t TileStore \<Rightarrow> Area \<Rightarrow> bool" where
  "contains s a = (accessed s a = Some True)"

text \<open>Modelled from the spec: \<open>insert(area, tile)\<close>, the body of which is missing. It
  records the tile, marks \<open>accessed[area] = true\<close> and appends the area to the history;
  on an area already present it does nothing.\<close>

definition insert_tile :: "'t TileStore \<Rightarrow> Area \<Rightarrow> 't \<Rightarrow> 't TileStore" where
  "insert_tile s a t =
     (if contains s a then s
      else s\<lparr>tiles := (tiles s)(a \<mapsto> t),
             accessed := (accessed s)(a \<mapsto> True),
             history := history s @ [a]\<rparr>)"

text \<open>Modelled from the spec: \<open>evict_obsolete(max_count)\<close>, standing for the missing body of
  \<^verbatim>\<open>erase_obsolete\<close>: while the history is longer than \<open>max_count\<close>, remove the oldest
  Area from the history and erase it from \<open>tiles\<close> and \<open>accessed\<close>.\<close>

function evict_obsolete :: "nat \<Rightarrow> 't TileStore \<Rightarrow> 't TileStore" where
  "evict_obsolete max_count s =
     (if length (history s) > max_count then
        (case history s of
           [] \<Rightarrow> s
         | oldest # rest \<Rightarrow>
             evict_obsolete max_count
               (s\<lparr>history := rest,
                  tiles := (tiles s)(oldest := None),
                  accessed := (accessed s)(oldest := None)\<rparr>))
      else s)"
  by pat_completeness auto
termination
  by (relation "measure (\<lambda>(max_count, s). length (history s))") auto

declare evict_obsolete.simps [simp del]

text \<open>Modelled from the spec: \<open>lookup2(p)\<close>, standing for the missing body of \<^verbatim>\<open>at2\<close>, as far
  as the store is concerned: compute the Area of \<open>p\<close>; on a miss build the tile and insert
  it. The builder is the parameter \<open>build\<close>; the pixel that is read does not change the
  store and is left out. \<open>ub\<close> is passed on to the constructor of the Area.\<close>

definition lookup2_store ::
  "(Area \<Rightarrow> 't) \<Rightarrow> 64 word \<Rightarrow> real \<Rightarrow> 't TileStore \<Rightarrow> Vector2f \<Rightarrow> error + 't TileStore" where
  "lookup2_store build ub unit_length s p =
     (case Area_ctor ub unit_length p of
        Inl e \<Rightarrow> Inl e
      | Inr area \<Rightarrow> Inr (if contains s area then s else insert_tile s area (build area)))"

text \<open>A sequence of lookups, stopped by the first exception.\<close>

fun lookups ::
  "(Area \<Rightarrow> 't) \<Rightarrow> 64 word \<Rightarrow> real \<Rightarrow> 't TileStore \<Rightarrow> Vector2f list \<Rightarrow> error + 't TileStore" where
  "lookups build ub unit_length s [] = Inr s"
| "lookups build ub unit_length s (p # ps) =
     (case lookup2_store build ub unit_length s p of
        Inl e \<Rightarrow> Inl e
      | Inr s' \<Rightarrow> lookups build ub unit_length s' ps)"

section \<open>The scorer (camera\_particle\_corrector\_core.cpp)\<close>

text \<open>The four parameters declared in the constructor of \<^verbatim>\<open>CameraParticleCorrector\<close>.\<close>

record Params =
  score_offset :: real
  max_raw_score :: real
  min_prob :: real
  far_weight_gain :: real

text \<open>The lambda \<^verbatim>\<open>score_convert\<close> of \<^verbatim>\<open>lsdCallback\<close>, with its capture
  \<^verbatim>\<open>k = -std::log(min_prob_) / 2.f\<close>.\<close>

definition score_convert :: "Params \<Rightarrow> real \<Rightarrow> real" where
  "score_convert prm raw =
     (let k = - ln (min_prob prm) / 2;
          raw = std_clamp raw (- max_raw_score prm) (max_raw_score prm)
      in min_prob prm * exp (k * (raw / max_raw_score prm + 1)))"

text \<open>The lambda \<^verbatim>\<open>absCos\<close> of \<^verbatim>\<open>computeScore\<close>.\<close>

definition absCos :: "Vector3f \<Rightarrow> real \<Rightarrow> real" where
  "absCos t deg =
     (let x = (fst t, fst (snd t));
          y = (cos (deg * pi / 180), sin (deg * pi / 180));
          x = normalize2 x
      in \<bar>dot2 x y\<bar>)"

text \<open>\<^verbatim>\<open>pcl::PointNormal\<close>: \<^verbatim>\<open>getVector3fMap()\<close> is \<open>pn_point\<close>, \<^verbatim>\<open>getNormalVector3fMap()\<close>
  is \<open>pn_normal\<close>; the remaining data of a point is \<open>curvature\<close>.\<close>

record PointNormal =
  pn_point :: Vector3f
  pn_normal :: Vector3f
  curvature :: real





text \<open>\<^verbatim>\<open>Eigen::Affine3f\<close>: the three rows of the linear part and the translation;
  \<^verbatim>\<open>transform * v\<close> is the linear part applied to \<open>v\<close> plus the translation.\<close>

record Affine3f =
  linear :: "Vector3f \<times> Vector3f \<times> Vector3f"
  translation :: Vector3f

definition dot3 :: "Vector3f \<Rightarrow> Vector3f \<Rightarrow> real" where
  "dot3 a b = fst a * fst b + fst (snd a) * fst (snd b) + snd (snd a) * snd (snd b)"

definition affine_apply :: "Affine3f \<Rightarrow> Vector3f \<Rightarrow> Vector3f" where
  "affine_apply T v =
     add3 (dot3 (fst (linear T)) v, dot3 (fst (snd (linear T))) v, dot3 (snd (snd (linear T))) v)
          (translation T)"

text \<open>\<^verbatim>\<open>transformCloud\<close>: the loop pushes one point per input point onto \<^verbatim>\<open>dst\<close>. A pushed
  point is a default-constructed \<^verbatim>\<open>pcl::PointNormal\<close> (the parameter \<open>dflt\<close>) with its two
  vector maps assigned.\<close>

fun transformCloud_loop ::
  "PointNormal \<Rightarrow> Affine3f \<Rightarrow> PointNormal list \<Rightarrow> PointNormal list \<Rightarrow> PointNormal list" where
  "transformCloud_loop dflt transform [] dst = dst"
| "transformCloud_loop dflt transform (pn # rest) dst =
     transformCloud_loop dflt transform rest
       (dst @ [dflt\<lparr>pn_point := affine_apply transform (pn_point pn),
                    pn_normal := affine_apply transform (pn_normal pn)\<rparr>])"

definition transformCloud :: "PointNormal \<Rightarrow> PointNormal list \<Rightarrow> Affine3f \<Rightarrow> PointNormal list" where
  "transformCloud dflt src transform = transformCloud_loop dflt transform src []"

section \<open>InitArea::is\_inside (init\_area.cpp)\<close>

text \<open>
  A polygon is its outer ring. \<^verbatim>\<open>boost::geometry::within\<close> is the parameter \<open>bg_within\<close>.
  The out-pointer \<^verbatim>\<open>bool * init_area\<close> is an address into a memory of booleans; the
  function returns its result and the memory it leaves.
\<close>

type_synonym Vector3d = "real \<times> real \<times> real"
type_synonym point = "real \<times> real"
type_synonym polygon = "point list"
type_synonym bool_mem = "nat \<Rightarrow> bool"

record InitArea =
  init_areas :: "polygon list"
  deinit_areas :: "polygon list"

text \<open>One \<^verbatim>\<open>for\<close> loop of \<^verbatim>\<open>is_inside\<close>: at the first polygon the query is within, write
  \<open>flag\<close> through the pointer and return true; \<open>None\<close> when the loop runs to its end.\<close>

fun is_inside_loop ::
  "(point \<Rightarrow> polygon \<Rightarrow> bool) \<Rightarrow> point \<Rightarrow> bool \<Rightarrow> polygon list \<Rightarrow> nat \<Rightarrow> bool_mem \<Rightarrow>
   (bool \<times> bool_mem) option" where
  "is_inside_loop bg_within query flag [] init_area mem = None"
| "is_inside_loop bg_within query flag (poly # rest) init_area mem =
     (if bg_within query poly then Some (True, mem(init_area := flag))
      else is_inside_loop bg_within query flag rest init_area mem)"

definition is_inside ::
  "(point \<Rightarrow> polygon \<Rightarrow> bool) \<Rightarrow> InitArea \<Rightarrow> Vector3d \<Rightarrow> nat \<Rightarrow> bool_mem \<Rightarrow> bool \<times> bool_mem" where
  "is_inside bg_within ia xyz init_area mem =
     (if init_areas ia = [] \<and> deinit_areas ia = [] then (False, mem)
      else
        let query = (fst xyz, fst (snd xyz)) in
        case is_inside_loop bg_within query True (init_areas ia) init_area mem of
          Some r \<Rightarrow> r
        | None \<Rightarrow>
            (case is_inside_loop bg_within query False (deinit_areas ia) init_area mem of
               Some r \<Rightarrow> r
             | None \<Rightarrow> (False, mem)))"

section \<open>color\_scale::rainbow (color.cpp)\<close>

record Color =
  Color_r :: real
  Color_g :: real
  Color_b :: real

definition rainbow :: "real \<Rightarrow> Color" where
  "rainbow value0 =
     (let r = 1; g = 1; b = 1;
          v = std_clamp value0 0 1
      in if v < 0.25 then \<lparr>Color_r = 0, Color_g = 4 * v, Color_b = b\<rparr>
         else if v < 0.5 then \<lparr>Color_r = 0, Color_g = g, Color_b = 1 + 4 * (0.25 - v)\<rparr>
         else if v < 0.75 then \<lparr>Color_r = 4 * (v - 0.5), Color_g = g, Color_b = 0\<rparr>
         else \<lparr>Color_r = r, Color_g = 1 + 4 * (0.75 - v), Color_b = 0\<rparr>)"

section \<open>The claims' own formulations\<close>

text \<open>
  The definitions of this section follow the words of the specification, not the code;
  the theorems compare them with the code.
\<close>








text \<open>The decoding the specification gives for the direction channel: a byte \<open>0..255\<close> for a
  bearing of \<open>0..360\<close> degrees.\<close>

definition bearing_360_255 :: "8 word \<Rightarrow> real" where
  "bearing_360_255 b = real (unat b) * 360 / 255"

text \<open>The consistency of the store: the history has no duplicates, and it lists exactly
  the areas that have a tile and exactly the areas marked as accessed.\<close>

definition store_inv :: "'t TileStore \<Rightarrow> bool" where
  "store_inv s \<longleftrightarrow>
     distinct (history s) \<and> dom (tiles s) = set (history s)
     \<and> (\<forall>a. accessed s a = (if a \<in> set (history s) then Some True else None))"

section \<open>Single precision: lemmas\<close>

lemma rne_error: "\<bar>of_int (rne y) - y\<bar> \<le> 1 / 2"
  unfolding rne_def Let_def by (auto simp: abs_le_iff)

lemma rne_nonneg: "0 \<le> y \<Longrightarrow> 0 \<le> rne y"
  unfolding rne_def Let_def by auto


lemma float_exponent_eqI:
  assumes "2 powi e \<le> \<bar>x\<bar>" and "\<bar>x\<bar> < 2 powi (e + 1)" and "- 126 \<le> e"
  shows "float_exponent x = e"
proof -
  have pos: "0 < \<bar>x\<bar>"
    using assms(1) zero_less_power_int [of "2 :: real" e] by linarith
  have "(2 :: real) powr real_of_int e = 2 powi e" and "(2 :: real) powr (real_of_int e + 1) = 2 powi (e + 1)"
    using powr_real_of_int' [of "2 :: real" e] powr_real_of_int' [of "2 :: real" "e + 1"] by simp_all
  then have "\<lfloor>log 2 \<bar>x\<bar>\<rfloor> = e"
    using assms floor_log_eq_powr_iff [of "\<bar>x\<bar>" 2 e] pos by simp
  then show ?thesis using assms(3) by (simp add: float_exponent_def)
qed

lemma round32_binade:
  assumes "2 powi e \<le> x" and "x < 2 powi (e + 1)" and "- 126 \<le> e" and "e \<le> 126"
  shows "round32 x = Some (of_int (rne (x / 2 powi (e - 23))) * 2 powi (e - 23))"
proof -
  have xpos: "0 < x" using assms(1) zero_less_power_int [of "2 :: real" e] by linarith
  then have ex: "float_exponent x = e"
    using assms by (intro float_exponent_eqI) simp_all
  define u :: real where "u = 2 powi (e - 23)"
  define y where "y = x / u"
  define m where "m = real_of_int (rne y)"
  have upos: "0 < u" by (simp add: u_def)
  have "y \<le> 2 powi (e + 1) / u"
    unfolding y_def using assms(2) upos by (simp add: divide_right_mono)
  also have "\<dots> = 2 powi 24"
    unfolding u_def by (simp add: power_int_diff [symmetric])
  finally have y24: "y \<le> 16777216" by simp
  have "\<bar>m - y\<bar> \<le> 1 / 2" unfolding m_def by (rule rne_error)
  with y24 have "m < 16777217" by linarith
  then have "rne y < 16777217" unfolding m_def by linarith
  then have "rne y \<le> 16777216" by linarith
  then have "m \<le> 16777216" unfolding m_def by linarith
  then have m24: "m \<le> 2 ^ 24" by simp
  have "m * u \<le> 2 ^ 24 * u"
    using m24 upos by (rule mult_right_mono [OF _ less_imp_le])
  also have "2 ^ 24 * u = 2 powi (e + 1)"
    unfolding u_def using power_int_add [of "2 :: real" 24 "e - 23"] by (simp add: add.commute)
  also have "\<dots> \<le> 2 powi 127"
    using assms(4) by (intro power_int_increasing) simp_all
  also have "\<dots> < 2 powi 128" by simp
  finally have hi: "m * u < 2 powi 128" .
  have "0 \<le> y" unfolding y_def using xpos upos by simp
  then have "0 \<le> m" unfolding m_def using rne_nonneg [of y] by simp
  then have "0 \<le> m * u" using upos by simp
  with hi have "\<bar>m * u\<bar> < 2 powi 128" by simp
  then show ?thesis
    using xpos unfolding m_def y_def u_def by (simp add: round32_def ex Let_def)
qed

lemma float_0_1_is_literal: "round32 (1 / 10) = Some float_0_1"
  using round32_binade [of "- 4" "1 / 10"] by (simp add: rne_def float_0_1_def)






section \<open>Area: theorems\<close>

















text \<open>
  C7. The world-space bounds of an Area with components \<open>(x, y)\<close> are the rectangle from
  \<open>(x * unit_length, y * unit_length)\<close> to that corner plus \<open>(unit_length, unit_length)\<close>.
\<close>

theorem real_scale_boundary_corners:
  "real_scale_boundary u a =
     ((real_of_int (sint (Area_x a)) * u, real_of_int (sint (Area_y a)) * u),
      (real_of_int (sint (Area_x a)) * u + u, real_of_int (sint (Area_y a)) * u + u))"
  by (simp add: real_scale_boundary_def real_scale_def add2_def)

text \<open>
  C5. With \<open>unit_length = 0\<close> the constructor does not throw: the guard is
  \<^verbatim>\<open>unit_length_ < 0\<close>, so zero passes it, the division by zero is carried out and the
  constructor returns an Area made of what the undefined conversion leaves.
  Negative values throw and positive values give an Area.
\<close>

theorem Area_ctor_zero_unit_length_not_thrown:
  "Area_ctor ub 0 (1, 1) = Inr \<lparr>Area_x = ucast ub, Area_y = ucast ub\<rparr>
   \<and> Area_ctor ub 0 (1, 1) \<noteq> Inl Invalid_unit_length
   \<and> Area_ctor ub (- 1) (1, 1) = Inl Invalid_unit_length
   \<and> Area_ctor ub 10 (1, 1) = Inr \<lparr>Area_x = 0, Area_y = 0\<rparr>"
  using round32_binade [of "- 4" "1 / 10"]
  by (simp add: Area_ctor_def std_floor_div_def fdiv32_def static_cast_long_def rne_def)

section \<open>The scorer: theorems\<close>

text \<open>
  C2 (as amended). For a minimum probability in \<open>(0, 1]\<close> and a positive \<open>max_raw_score\<close>
  (the defaults are \<open>0.01\<close> and \<open>5000\<close>), the conversion clamps the raw score to
  \<open>[-max_raw_score, max_raw_score]\<close> (a score in the range is kept, one below it becomes
  \<open>-max_raw_score\<close>, one above it \<open>max_raw_score\<close>) and applies
  \<open>min_prob * exp (k * (raw / max_raw_score + 1))\<close> with \<open>k = - ln min_prob / 2\<close>; the result is
  monotone non-decreasing in the raw score, is \<open>min_prob\<close> at and below \<open>-max_raw_score\<close>
  and is \<open>1\<close> at and above \<open>max_raw_score\<close>.
\<close>

theorem score_convert_monotone:
  assumes "0 < min_prob prm" and "min_prob prm \<le> 1" and "0 < max_raw_score prm"
  shows "score_convert prm raw =
           min_prob prm * exp ((- ln (min_prob prm) / 2)
             * ((if raw < - max_raw_score prm then - max_raw_score prm
                 else if max_raw_score prm < raw then max_raw_score prm
                 else raw) / max_raw_score prm + 1))
       \<and> (- max_raw_score prm \<le> raw \<and> raw \<le> max_raw_score prm \<longrightarrow>
            score_convert prm raw =
              min_prob prm * exp ((- ln (min_prob prm) / 2) * (raw / max_raw_score prm + 1)))
       \<and> (raw \<le> - max_raw_score prm \<longrightarrow> score_convert prm raw = min_prob prm)
       \<and> (max_raw_score prm \<le> raw \<longrightarrow> score_convert prm raw = 1)
       \<and> (a \<le> b \<longrightarrow> score_convert prm a \<le> score_convert prm b)
       \<and> score_convert prm (- max_raw_score prm) = min_prob prm
       \<and> score_convert prm (max_raw_score prm) = 1"
proof -
  let ?M = "max_raw_score prm" and ?m = "min_prob prm"
  let ?k = "- ln ?m / 2"
  have k: "0 \<le> ?k" using assms by simp
  have mono: "score_convert prm a \<le> score_convert prm b" if "a \<le> b"
  proof -
    have "std_clamp a (- ?M) ?M \<le> std_clamp b (- ?M) ?M"
      using that assms(3) by (auto simp: std_clamp_def)
    then have "std_clamp a (- ?M) ?M / ?M + 1 \<le> std_clamp b (- ?M) ?M / ?M + 1"
      using assms(3) by (simp add: divide_right_mono)
    then have "?k * (std_clamp a (- ?M) ?M / ?M + 1) \<le> ?k * (std_clamp b (- ?M) ?M / ?M + 1)"
      using k by (rule mult_left_mono)
    then show ?thesis
      using assms(1) by (simp add: score_convert_def Let_def)
  qed
  have lo: "score_convert prm x = ?m" if "x \<le> - ?M" for x
    using assms(3) that by (auto simp: score_convert_def std_clamp_def)
  have "?m * exp (- ln ?m) = 1"
    using assms(1) by (simp add: exp_minus)
  then have hi: "score_convert prm x = 1" if "?M \<le> x" for x
    using assms(3) that by (auto simp: score_convert_def std_clamp_def)
  have form: "score_convert prm raw =
           ?m * exp (?k * ((if raw < - ?M then - ?M else if ?M < raw then ?M else raw) / ?M + 1))"
    by (simp add: score_convert_def std_clamp_def Let_def)
  have mid: "score_convert prm raw = ?m * exp (?k * (raw / ?M + 1))"
    if "- ?M \<le> raw \<and> raw \<le> ?M"
    using that by (auto simp: score_convert_def std_clamp_def Let_def)
  show ?thesis
    using form mid mono lo [of raw] hi [of raw] lo [of "- ?M"] hi [of ?M] by blast
qed

theorem score_convert_monotone_witness:
  "score_convert \<lparr>score_offset = -64, max_raw_score = 5000, min_prob = 1 / 100, far_weight_gain = 1 / 1000\<rparr> (- 5000) = 1 / 100
   \<and> score_convert \<lparr>score_offset = -64, max_raw_score = 5000, min_prob = 1 / 100, far_weight_gain = 1 / 1000\<rparr> 5000 = 1
   \<and> score_convert \<lparr>score_offset = -64, max_raw_score = 5000, min_prob = 1 / 100, far_weight_gain = 1 / 1000\<rparr> 0 = 1 / 10
   \<and> score_convert \<lparr>score_offset = -64, max_raw_score = 5000, min_prob = 1 / 100, far_weight_gain = 1 / 1000\<rparr> 12
      \<le> score_convert \<lparr>score_offset = -64, max_raw_score = 5000, min_prob = 1 / 100, far_weight_gain = 1 / 1000\<rparr> 6000"
proof -
  have "ln (1 / 100 :: real) = - (2 * ln 10)"
    using ln_realpow [of "10 :: real" 2] by (simp add: ln_div)
  then have "(1 / 100 :: real) * exp (- ln (1 / 100) / 2) = 1 / 10"
    by simp
  then show ?thesis
    using score_convert_monotone [of "\<lparr>score_offset = -64, max_raw_score = 5000, min_prob = 1 / 100, far_weight_gain = 1 / 1000\<rparr>" 0 12 6000]
    by simp
qed

text \<open>
  C2 (as stated) fails, since nothing keeps \<open>min_prob\<close> at or below \<open>1\<close>: with
  \<open>min_prob = 2\<close> and \<open>max_raw_score = 1\<close> the raw score \<open>-1\<close> has weight \<open>2\<close> and the raw
  score \<open>1\<close> has weight \<open>1\<close>, so the conversion is not monotone non-decreasing.
\<close>

theorem score_convert_not_monotone:
  "score_convert \<lparr>score_offset = -64, max_raw_score = 1, min_prob = 2, far_weight_gain = 1 / 1000\<rparr> (- 1) = 2
   \<and> score_convert \<lparr>score_offset = -64, max_raw_score = 1, min_prob = 2, far_weight_gain = 1 / 1000\<rparr> 1 = 1
   \<and> \<not> score_convert \<lparr>score_offset = -64, max_raw_score = 1, min_prob = 2, far_weight_gain = 1 / 1000\<rparr> (- 1)
        \<le> score_convert \<lparr>score_offset = -64, max_raw_score = 1, min_prob = 2, far_weight_gain = 1 / 1000\<rparr> 1"
  by (simp add: score_convert_def std_clamp_def exp_minus)

text \<open>A tangent without planar part is left as it is by \<^verbatim>\<open>normalize()\<close>, and the product
  with the direction is zero.\<close>

lemma absCos_planar_zero: "absCos (0, 0, z) deg = 0"
  by (simp add: absCos_def normalize2_def squaredNorm2_def dot2_def)

text \<open>For a tangent whose planar part has length \<open>r > 0\<close> and angle \<open>\<alpha>\<close>, \<open>absCos\<close> is the
  absolute cosine of the angle between the tangent and the direction at \<open>deg\<close> degrees.\<close>

lemma absCos_polar:
  assumes "0 < r"
  shows "absCos (r * cos \<alpha>, r * sin \<alpha>, z) deg = \<bar>cos (\<alpha> - deg * pi / 180)\<bar>"
proof -
  have "squaredNorm2 (r * cos \<alpha>, r * sin \<alpha>) = r\<^sup>2 * ((cos \<alpha>)\<^sup>2 + (sin \<alpha>)\<^sup>2)"
    unfolding squaredNorm2_def fst_conv snd_conv by (simp only: power2_eq_square ring_distribs ac_simps)
  also have "\<dots> = r\<^sup>2"
    unfolding sin_cos_squared_add2 by simp
  finally have sq: "squaredNorm2 (r * cos \<alpha>, r * sin \<alpha>) = r\<^sup>2" .
  have pos: "0 < r\<^sup>2" using assms by simp
  have rt: "sqrt (r\<^sup>2) = r" using assms by simp
  have "normalize2 (r * cos \<alpha>, r * sin \<alpha>) = (cos \<alpha>, sin \<alpha>)"
    using assms pos by (simp add: normalize2_def sq rt Let_def)
  then show ?thesis
    by (simp add: absCos_def dot2_def cos_diff Let_def)
qed

text \<open>Every planar vector other than zero is its length times the unit vector at some
  angle.\<close>

lemma planar_polar:
  assumes "tx \<noteq> 0 \<or> ty \<noteq> 0"
  shows "\<exists>\<alpha>. tx = sqrt (tx\<^sup>2 + ty\<^sup>2) * cos \<alpha> \<and> ty = sqrt (tx\<^sup>2 + ty\<^sup>2) * sin \<alpha>"
proof -
  define \<rho> where "\<rho> = sqrt (tx\<^sup>2 + ty\<^sup>2)"
  have pos: "0 < tx\<^sup>2 + ty\<^sup>2"
    using assms by (auto simp: sum_power2_gt_zero_iff)
  then have r: "0 < \<rho>" by (simp add: \<rho>_def)
  have rsq: "\<rho>\<^sup>2 = tx\<^sup>2 + ty\<^sup>2" by (simp add: \<rho>_def)
  have "(tx / \<rho>)\<^sup>2 + (ty / \<rho>)\<^sup>2 = (tx\<^sup>2 + ty\<^sup>2) / \<rho>\<^sup>2"
    by (simp add: power_divide add_divide_distrib)
  also have "\<dots> = 1" using r by (simp add: rsq [symmetric])
  finally obtain \<alpha> where c: "tx / \<rho> = cos \<alpha>" and s: "ty / \<rho> = sin \<alpha>"
    using sincos_total_2pi by blast
  have "tx = \<rho> * (tx / \<rho>)" and "ty = \<rho> * (ty / \<rho>)"
    using r by simp_all
  then have "tx = \<rho> * cos \<alpha>" and "ty = \<rho> * sin \<alpha>"
    unfolding c s .
  then show ?thesis unfolding \<rho>_def by blast
qed

text \<open>
  C4 (as amended). The alignment factor is the absolute cosine of the angle between the
  planar part of the segment's tangent and the stored direction, where the byte of the
  direction channel is read as a number of degrees as it is, with no factor \<open>360/255\<close>:
  the byte \<open>b\<close> stands for the bearing of \<open>b\<close> degrees. This holds for a tangent given by
  the length \<open>r > 0\<close> and the angle \<open>\<alpha>\<close> of its planar part, and every tangent whose planar
  part is not zero has such an angle. A tangent with no planar part has alignment \<open>0\<close>.
\<close>

theorem absCos_reads_degrees:
  "(0 < r \<longrightarrow> absCos (r * cos \<alpha>, r * sin \<alpha>, z) (real (unat (b :: 8 word)))
                 = \<bar>cos (\<alpha> - real (unat b) * pi / 180)\<bar>)
   \<and> (tx \<noteq> 0 \<or> ty \<noteq> 0 \<longrightarrow>
        (\<exists>\<beta>. tx = sqrt (tx\<^sup>2 + ty\<^sup>2) * cos \<beta> \<and> ty = sqrt (tx\<^sup>2 + ty\<^sup>2) * sin \<beta>
           \<and> absCos (tx, ty, z) (real (unat b)) = \<bar>cos (\<beta> - real (unat b) * pi / 180)\<bar>))
   \<and> absCos (0, 0, z) (real (unat b)) = 0"
proof (intro conjI impI)
  assume "0 < r"
  then show "absCos (r * cos \<alpha>, r * sin \<alpha>, z) (real (unat b)) = \<bar>cos (\<alpha> - real (unat b) * pi / 180)\<bar>"
    by (rule absCos_polar)
next
  assume nz: "tx \<noteq> 0 \<or> ty \<noteq> 0"
  then obtain \<beta> where b: "tx = sqrt (tx\<^sup>2 + ty\<^sup>2) * cos \<beta>" "ty = sqrt (tx\<^sup>2 + ty\<^sup>2) * sin \<beta>"
    using planar_polar by blast
  from nz have "0 < sqrt (tx\<^sup>2 + ty\<^sup>2)"
    by (auto simp: sum_power2_gt_zero_iff)
  then have "absCos (sqrt (tx\<^sup>2 + ty\<^sup>2) * cos \<beta>, sqrt (tx\<^sup>2 + ty\<^sup>2) * sin \<beta>, z) (real (unat b))
             = \<bar>cos (\<beta> - real (unat b) * pi / 180)\<bar>"
    by (rule absCos_polar)
  with b show "\<exists>\<beta>. tx = sqrt (tx\<^sup>2 + ty\<^sup>2) * cos \<beta> \<and> ty = sqrt (tx\<^sup>2 + ty\<^sup>2) * sin \<beta>
           \<and> absCos (tx, ty, z) (real (unat b)) = \<bar>cos (\<beta> - real (unat b) * pi / 180)\<bar>"
    by auto
next
  show "absCos (0, 0, z) (real (unat b)) = 0"
    by (rule absCos_planar_zero)
qed

theorem absCos_reads_degrees_witness:
  "absCos (2, 0, 5) (real (unat (180 :: 8 word))) = 1
   \<and> (\<exists>\<beta>. (0 :: real) = sqrt (0\<^sup>2 + 3\<^sup>2) * cos \<beta> \<and> (3 :: real) = sqrt (0\<^sup>2 + 3\<^sup>2) * sin \<beta>
        \<and> absCos (0, 3, 5) (real (unat (180 :: 8 word))) = \<bar>cos (\<beta> - real (unat (180 :: 8 word)) * pi / 180)\<bar>)"
  using absCos_reads_degrees [of 2 0 5 180 0 3] by simp

text \<open>
  C4 (as stated) fails: for the tangent \<open>(1, 0, 0)\<close> and the byte \<open>90\<close> the code's
  alignment is \<open>|cos 90\<degree>| = 0\<close>, and the alignment with the byte decoded by \<open>360/255\<close> is
  \<open>|cos (90 * 360 / 255)\<degree>|\<close>, which is not \<open>0\<close>.
\<close>

theorem absCos_not_360_255:
  "absCos (1, 0, 0) (real (unat (90 :: 8 word))) \<noteq> absCos (1, 0, 0) (bearing_360_255 90)"
proof -
  have code: "absCos (1, 0, 0) (real (unat (90 :: 8 word))) = 0"
    using absCos_polar [of 1 0 0 "real (unat (90 :: 8 word))"] by simp
  have "absCos (1, 0, 0) (bearing_360_255 90) = \<bar>cos (0 - bearing_360_255 90 * pi / 180)\<bar>"
    using absCos_polar [of 1 0 0 "bearing_360_255 90"] by simp
  also have "0 - bearing_360_255 90 * pi / 180 = - (pi - 5 * pi / 17)"
    by (simp add: bearing_360_255_def)
  also have "\<bar>cos (- (pi - 5 * pi / 17))\<bar> = \<bar>cos (pi - 5 * pi / 17)\<bar>"
    by simp
  also have "\<dots> = \<bar>cos (5 * pi / 17)\<bar>"
    unfolding cos_pi_minus by simp
  finally have claim: "absCos (1, 0, 0) (bearing_360_255 90) = \<bar>cos (5 * pi / 17)\<bar>" .
  have "- (pi / 2) < 5 * pi / 17" and "5 * pi / 17 < pi / 2"
    using pi_gt_zero by linarith+
  then have "0 < cos (5 * pi / 17)"
    by (rule cos_gt_zero_pi)
  with code claim show ?thesis by simp
qed
















text \<open>The loop appends to \<open>dst\<close> the image of each input point.\<close>

lemma transformCloud_loop_eq:
  "transformCloud_loop dflt T src dst =
     dst @ map (\<lambda>pn. dflt\<lparr>pn_point := affine_apply T (pn_point pn),
                            pn_normal := affine_apply T (pn_normal pn)\<rparr>) src"
  by (induction src arbitrary: dst) simp_all

text \<open>
  C8. The transformed cloud has the size of the input, and at every index its point and
  its normal are the transform applied to the input's point and normal; everything else
  in the output point is what a default-constructed point holds, whatever the input.
\<close>

theorem transformCloud_pointwise:
  "length (transformCloud dflt src T) = length src
   \<and> (\<forall>i < length src.
         pn_point (transformCloud dflt src T ! i) = affine_apply T (pn_point (src ! i))
       \<and> pn_normal (transformCloud dflt src T ! i) = affine_apply T (pn_normal (src ! i))
       \<and> curvature (transformCloud dflt src T ! i) = curvature dflt)"
  by (simp add: transformCloud_def transformCloud_loop_eq)

theorem transformCloud_pointwise_witness:
  "transformCloud \<lparr>pn_point = (0, 0, 0), pn_normal = (0, 0, 0), curvature = 0\<rparr>
     [\<lparr>pn_point = (1, 2, 3), pn_normal = (4, 5, 6), curvature = 7\<rparr>]
     \<lparr>linear = ((0, -1, 0), (1, 0, 0), (0, 0, 1)), translation = (10, 20, 30)\<rparr>
   = [\<lparr>pn_point = (8, 21, 33), pn_normal = (5, 24, 36), curvature = 0\<rparr>]"
proof -
  let ?d = "\<lparr>pn_point = (0, 0, 0), pn_normal = (0, 0, 0), curvature = 0\<rparr>"
  let ?src = "[\<lparr>pn_point = (1, 2, 3), pn_normal = (4, 5, 6), curvature = 7\<rparr>]"
  let ?T = "\<lparr>linear = ((0, -1, 0), (1, 0, 0), (0, 0, 1)), translation = (10, 20, 30)\<rparr>"
  have len: "length (transformCloud ?d ?src ?T) = 1"
    and el: "pn_point (transformCloud ?d ?src ?T ! 0) = affine_apply ?T (pn_point (?src ! 0))"
            "pn_normal (transformCloud ?d ?src ?T ! 0) = affine_apply ?T (pn_normal (?src ! 0))"
            "curvature (transformCloud ?d ?src ?T ! 0) = curvature ?d"
    using transformCloud_pointwise [of ?d ?src ?T] by simp_all
  from len obtain pn where pn: "transformCloud ?d ?src ?T = [pn]"
    by (cases "transformCloud ?d ?src ?T") simp_all
  with el show ?thesis
    by (cases pn) (simp add: affine_apply_def dot3_def add3_def)
qed

section \<open>The tile store: theorems\<close>

lemma store_inv_empty: "store_inv empty_store"
  by (simp add: store_inv_def empty_store_def)

lemma store_inv_insert_tile: "store_inv s \<Longrightarrow> store_inv (insert_tile s a t)"
  by (auto simp: store_inv_def insert_tile_def contains_def)

lemma store_inv_lookup2_store:
  "store_inv s \<Longrightarrow> lookup2_store build ub u s p = Inr s' \<Longrightarrow> store_inv s'"
  by (auto simp: lookup2_store_def store_inv_insert_tile split: sum.splits if_splits)

lemma store_inv_lookups:
  "store_inv s \<Longrightarrow> lookups build ub u s ps = Inr s' \<Longrightarrow> store_inv s'"
proof (induction ps arbitrary: s)
  case Nil
  then show ?case by simp
next
  case (Cons p ps)
  then show ?case
    by (auto split: sum.splits dest: store_inv_lookup2_store)
qed

lemma lookup2_store_returns: "0 < u \<Longrightarrow> \<exists>s'. lookup2_store build ub u s p = Inr s'"
  by (simp add: lookup2_store_def Area_ctor_def)

lemma lookups_returns: "0 < u \<Longrightarrow> \<exists>s'. lookups build ub u s ps = Inr s'"
proof (induction ps arbitrary: s)
  case Nil
  show ?case by simp
next
  case (Cons p ps)
  from Cons.prems obtain s1 where "lookup2_store build ub u s p = Inr s1"
    using lookup2_store_returns by blast
  with Cons show ?case by simp
qed

lemma evict_obsolete_history:
  "history (evict_obsolete n s) = drop (length (history s) - n) (history s)"
proof (induction n s rule: evict_obsolete.induct)
  case (1 n s)
  show ?case
  proof (cases "length (history s) > n")
    case False
    then show ?thesis by (subst evict_obsolete.simps) (simp add: restrict_map_def)
  next
    case True
    then obtain a rest where h: "history s = a # rest" by (cases "history s") auto
    with True have "length (a # rest) - n = Suc (length rest - n)" by simp
    with True h 1 show ?thesis
      by (subst evict_obsolete.simps) simp
  qed
qed

lemma evict_obsolete_tiles:
  "tiles (evict_obsolete n s) =
     tiles s |` (- set (take (length (history s) - n) (history s)))"
proof (induction n s rule: evict_obsolete.induct)
  case (1 n s)
  show ?case
  proof (cases "length (history s) > n")
    case False
    then show ?thesis by (subst evict_obsolete.simps) (simp add: restrict_map_def)
  next
    case True
    then obtain a rest where h: "history s = a # rest" by (cases "history s") auto
    with True have l: "length (a # rest) - n = Suc (length rest - n)" by simp
    have "tiles (evict_obsolete n s)
          = ((tiles s)(a := None)) |` (- set (take (length rest - n) rest))"
      using True h 1 by (subst evict_obsolete.simps) (simp add: fun_upd_def del: restrict_fun_upd)
    also have "\<dots> = tiles s |` (- set (take (length (history s) - n) (history s)))"
      unfolding h l by (auto simp: restrict_map_def fun_eq_iff simp del: restrict_fun_upd)
    finally show ?thesis .
  qed
qed

lemma evict_obsolete_accessed:
  "accessed (evict_obsolete n s) =
     accessed s |` (- set (take (length (history s) - n) (history s)))"
proof (induction n s rule: evict_obsolete.induct)
  case (1 n s)
  show ?case
  proof (cases "length (history s) > n")
    case False
    then show ?thesis by (subst evict_obsolete.simps) (simp add: restrict_map_def)
  next
    case True
    then obtain a rest where h: "history s = a # rest" by (cases "history s") auto
    with True have l: "length (a # rest) - n = Suc (length rest - n)" by simp
    have "accessed (evict_obsolete n s)
          = ((accessed s)(a := None)) |` (- set (take (length rest - n) rest))"
      using True h 1 by (subst evict_obsolete.simps) (simp add: fun_upd_def del: restrict_fun_upd)
    also have "\<dots> = accessed s |` (- set (take (length (history s) - n) (history s)))"
      unfolding h l by (auto simp: restrict_map_def fun_eq_iff simp del: restrict_fun_upd)
    finally show ?thesis .
  qed
qed

lemma store_inv_evict_dom:
  assumes "store_inv s"
  shows "dom (tiles (evict_obsolete n s)) = set (drop (length (history s) - n) (history s))"
proof -
  let ?h = "history s" and ?k = "length (history s) - n"
  have d: "distinct ?h" and dm: "dom (tiles s) = set ?h"
    using assms by (simp_all add: store_inv_def)
  have "set ?h = set (take ?k ?h) \<union> set (drop ?k ?h)"
    by (metis append_take_drop_id set_append)
  moreover have "set (take ?k ?h) \<inter> set (drop ?k ?h) = {}"
    using d by (metis append_take_drop_id distinct_append)
  ultimately have "set ?h - set (take ?k ?h) = set (drop ?k ?h)" by blast
  then show ?thesis
    by (auto simp: evict_obsolete_tiles dm)
qed

lemma store_inv_evict_card:
  assumes "store_inv s"
  shows "card (dom (tiles (evict_obsolete n s))) \<le> n"
proof -
  have "card (dom (tiles (evict_obsolete n s)))
        = card (set (drop (length (history s) - n) (history s)))"
    by (simp add: store_inv_evict_dom [OF assms])
  also have "\<dots> \<le> length (drop (length (history s) - n) (history s))"
    by (rule card_length)
  also have "\<dots> \<le> n" by simp
  finally show ?thesis .
qed

text \<open>
  C6. After any sequence of lookups on an empty store (with a positive \<open>unit_length\<close>, so
  that no lookup throws) and a call of the eviction, at most \<open>max_count\<close> tiles are
  resident; the eviction keeps the newest end of the creation history and removes the
  oldest areas, as many as the history exceeds \<open>max_count\<close> by, from the history, from the
  tile map and from the accessed map.
\<close>

theorem eviction_bound:
  assumes "0 < u"
  shows "\<exists>s. lookups build ub u empty_store ps = Inr s
     \<and> card (dom (tiles (evict_obsolete n s))) \<le> n
     \<and> dom (tiles (evict_obsolete n s)) = set (history (evict_obsolete n s))
     \<and> history (evict_obsolete n s) = drop (length (history s) - n) (history s)
     \<and> tiles (evict_obsolete n s) = tiles s |` (- set (take (length (history s) - n) (history s)))
     \<and> accessed (evict_obsolete n s) = accessed s |` (- set (take (length (history s) - n) (history s)))"
proof -
  from assms obtain s where s: "lookups build ub u empty_store ps = Inr s"
    using lookups_returns by blast
  then have inv: "store_inv s"
    using store_inv_lookups store_inv_empty by blast
  show ?thesis
    using s store_inv_evict_card [OF inv] store_inv_evict_dom [OF inv]
    by (simp add: evict_obsolete_history evict_obsolete_tiles evict_obsolete_accessed)
qed

lemma q5: "std_floor_div 5 10 = Some 0"
  using round32_binade [of "- 1" "5 / 10"] by (simp add: std_floor_div_def fdiv32_def rne_def)

lemma q15: "std_floor_div 15 10 = Some 1"
  using round32_binade [of 0 "15 / 10"] by (simp add: std_floor_div_def fdiv32_def rne_def)

lemma q25: "std_floor_div 25 10 = Some 2"
  using round32_binade [of 1 "25 / 10"] by (simp add: std_floor_div_def fdiv32_def rne_def)

theorem eviction_bound_witness:
  "\<exists>s. lookups (\<lambda>a. 0 :: nat) 0 10 empty_store [(5, 5), (15, 5), (25, 5)] = Inr s
     \<and> card (dom (tiles (evict_obsolete 2 s))) \<le> 2
     \<and> history s = [\<lparr>Area_x = 0, Area_y = 0\<rparr>, \<lparr>Area_x = 1, Area_y = 0\<rparr>, \<lparr>Area_x = 2, Area_y = 0\<rparr>]
     \<and> history (evict_obsolete 2 s) = [\<lparr>Area_x = 1, Area_y = 0\<rparr>, \<lparr>Area_x = 2, Area_y = 0\<rparr>]
     \<and> \<not> contains (evict_obsolete 2 s) \<lparr>Area_x = 0, Area_y = 0\<rparr>"
proof -
  obtain s where s: "lookups (\<lambda>a. 0 :: nat) 0 10 empty_store [(5, 5), (15, 5), (25, 5)] = Inr s"
    and c: "card (dom (tiles (evict_obsolete 2 s))) \<le> 2"
    and h: "history (evict_obsolete 2 s) = drop (length (history s) - 2) (history s)"
    and a: "accessed (evict_obsolete 2 s)
              = accessed s |` (- set (take (length (history s) - 2) (history s)))"
    using eviction_bound [of 10 "\<lambda>a. 0 :: nat" 0 "[(5, 5), (15, 5), (25, 5)]" 2] by auto
  have hs: "history s = [\<lparr>Area_x = 0, Area_y = 0\<rparr>, \<lparr>Area_x = 1, Area_y = 0\<rparr>, \<lparr>Area_x = 2, Area_y = 0\<rparr>]"
    using s by (auto simp: lookup2_store_def Area_ctor_def static_cast_long_def q5 q15 q25
                           insert_tile_def contains_def empty_store_def)
  show ?thesis
    using s c by (intro exI [of _ s]) (simp add: h a hs contains_def)
qed

section \<open>InitArea::is\_inside: theorems\<close>

lemma is_inside_loop_None:
  "is_inside_loop W q flag polys p mem = None \<longleftrightarrow> (\<forall>poly \<in> set polys. \<not> W q poly)"
  by (induction polys) simp_all

lemma is_inside_loop_Some:
  "is_inside_loop W q flag polys p mem = Some r \<Longrightarrow>
     r = (True, mem(p := flag)) \<and> (\<exists>poly \<in> set polys. W q poly)"
  by (induction polys) (auto split: if_splits)

text \<open>
  C9. When \<open>is_inside\<close> returns false the memory is what it was, in particular when both
  polygon lists are empty; so a changed memory means the result is true. The result is
  true exactly when the query is within some stored polygon, and no address other than
  the out-pointer is ever written.
\<close>

theorem is_inside_frame:
  "(fst (is_inside W ia xyz p mem) = False \<longrightarrow> snd (is_inside W ia xyz p mem) = mem)
   \<and> (init_areas ia = [] \<and> deinit_areas ia = [] \<longrightarrow> is_inside W ia xyz p mem = (False, mem))
   \<and> (snd (is_inside W ia xyz p mem) \<noteq> mem \<longrightarrow> fst (is_inside W ia xyz p mem) = True)
   \<and> (fst (is_inside W ia xyz p mem) = True \<longleftrightarrow>
        (\<exists>poly \<in> set (init_areas ia) \<union> set (deinit_areas ia). W (fst xyz, fst (snd xyz)) poly))
   \<and> (\<forall>a. a \<noteq> p \<longrightarrow> snd (is_inside W ia xyz p mem) a = mem a)"
  by (auto simp: is_inside_def Let_def is_inside_loop_None
           split: option.splits dest!: is_inside_loop_Some)

theorem is_inside_frame_witness:
  "is_inside (\<lambda>q poly. q \<in> set poly) \<lparr>init_areas = [], deinit_areas = []\<rparr> (1, 2, 3) 0 (\<lambda>a. True)
     = (False, \<lambda>a. True)
   \<and> is_inside (\<lambda>q poly. q \<in> set poly) \<lparr>init_areas = [[(0, 0)]], deinit_areas = [[(5, 5)]]\<rparr> (1, 2, 3) 0 (\<lambda>a. True)
     = (False, \<lambda>a. True)"
  using is_inside_frame [of "\<lambda>q poly. q \<in> set poly" "\<lparr>init_areas = [], deinit_areas = []\<rparr>" "(1, 2, 3)" 0 "\<lambda>a. True"]
    is_inside_frame [of "\<lambda>q poly. q \<in> set poly" "\<lparr>init_areas = [[(0, 0)]], deinit_areas = [[(5, 5)]]\<rparr>" "(1, 2, 3)" 0 "\<lambda>a. True"]
  by (simp add: is_inside_def)

section \<open>rainbow: theorems\<close>

text \<open>
  C10. For every real input, the three channels of \<open>rainbow\<close> lie in \<open>[0, 1]\<close>, and
  \<open>rainbow\<close> of a value is \<open>rainbow\<close> of the value clamped to \<open>[0, 1]\<close>.
\<close>

theorem rainbow_range:
  "0 \<le> Color_r (rainbow v) \<and> Color_r (rainbow v) \<le> 1
   \<and> 0 \<le> Color_g (rainbow v) \<and> Color_g (rainbow v) \<le> 1
   \<and> 0 \<le> Color_b (rainbow v) \<and> Color_b (rainbow v) \<le> 1
   \<and> rainbow v = rainbow (std_clamp v 0 1)"
  by (simp add: rainbow_def std_clamp_def Let_def)

end
